theory Spec2Isabelle
  imports Complex_Main
begin

section \<open>Arrays and errors\<close>

text \<open>
  The script \<^verbatim>\<open>src/hog/eigenfaces.py\<close> works on numpy arrays. An array is modelled by
  its shape tuple and its elements in row-major (C) order, which is the order in which
  \<^verbatim>\<open>reshape\<close> reads and writes them. Pixel values are the real numbers the stored
  samples denote. Target dimensions are natural numbers.
\<close>

record 'a ndarray =
  shape :: "nat list"
  data :: "'a list"

text \<open>An array is well formed when it holds as many elements as its shape announces.\<close>

definition wf :: "'a ndarray \<Rightarrow> bool" where
  "wf a \<longleftrightarrow> length (data a) = prod_list (shape a)"

text \<open>
  Every exception of the script is a value. \<open>ValueError msg\<close> is a ValueError raised by the
  script itself or by the Python runtime, with its message; \<open>NumpyValueError\<close> is a
  ValueError raised inside numpy (its message is numpy's own); \<open>IndexError\<close> is an
  out-of-range index; \<open>IOError p\<close> is a failed read or write of the file \<open>p\<close>;
  \<open>FitError\<close> is any exception raised inside the decomposition library.
\<close>

datatype error = ValueError string | NumpyValueError | IndexError | IOError string | FitError

subsection \<open>Python's \<^verbatim>\<open>str\<close> of a shape tuple\<close>

definition digit_char :: "nat \<Rightarrow> char" where
  "digit_char d = ''0123456789'' ! d"

function str_nat :: "nat \<Rightarrow> string" where
  "str_nat n = (if n < 10 then [digit_char n] else str_nat (n div 10) @ [digit_char (n mod 10)])"
  by pat_completeness auto
termination
  by (relation "measure id") auto

declare str_nat.simps [simp del]

fun join_comma :: "string list \<Rightarrow> string" where
  "join_comma [] = []"
| "join_comma [s] = s"
| "join_comma (s # t # ts) = s @ '', '' @ join_comma (t # ts)"

fun str_tuple :: "nat list \<Rightarrow> string" where
  "str_tuple [] = ''()''"
| "str_tuple [n] = ''('' @ str_nat n @ '',)''"
| "str_tuple ns = ''('' @ join_comma (map str_nat ns) @ '')''"

subsection \<open>The numpy operations the script calls\<close>

definition np_zeros :: "nat list \<Rightarrow> real ndarray" where
  "np_zeros sh = \<lparr>shape = sh, data = replicate (prod_list sh) 0\<rparr>"

text \<open>\<^verbatim>\<open>a.reshape(newshape)\<close>: the elements stay in place; the element count must not change.\<close>

definition np_reshape :: "'a ndarray \<Rightarrow> nat list \<Rightarrow> error + 'a ndarray" where
  "np_reshape a sh =
     (if prod_list (shape a) = prod_list sh then Inr \<lparr>shape = sh, data = data a\<rparr>
      else Inl NumpyValueError)"

definition atleast_2d :: "'a ndarray \<Rightarrow> 'a ndarray" where
  "atleast_2d a =
     (case shape a of
        [] \<Rightarrow> \<lparr>shape = [1, 1], data = data a\<rparr>
      | [n] \<Rightarrow> \<lparr>shape = [1, n], data = data a\<rparr>
      | _ \<Rightarrow> a)"

text \<open>
  \<^verbatim>\<open>np.vstack(arrays)\<close>: the arrays, each made at least 2-D, are concatenated along
  axis 0. They must agree on every other dimension, and there must be at least one.
\<close>

definition np_vstack :: "'a ndarray list \<Rightarrow> error + 'a ndarray" where
  "np_vstack arrays =
     (case map atleast_2d arrays of
        [] \<Rightarrow> Inl NumpyValueError
      | a # rest \<Rightarrow>
          if list_all (\<lambda>b. tl (shape b) = tl (shape a)) rest
          then Inr \<lparr>shape = sum_list (map (\<lambda>b. hd (shape b)) (a # rest)) # tl (shape a),
                    data = concat (map data (a # rest))\<rparr>
          else Inl NumpyValueError)"

text \<open>The \<open>n\<close> consecutive blocks of \<open>k\<close> elements of a list.\<close>

definition blocks :: "nat \<Rightarrow> nat \<Rightarrow> 'a list \<Rightarrow> 'a list list" where
  "blocks n k xs = map (\<lambda>i. take k (drop (i * k) xs)) [0..<n]"

text \<open>
  \<^verbatim>\<open>np.hstack([a, b])\<close>: 1-D arrays (0-D ones count as 1-D) are concatenated along
  axis 0, arrays of more dimensions along axis 1, where they must agree on every other
  dimension. In row-major order each block of \<open>a\<close> along axis 0 is followed by the
  corresponding block of \<open>b\<close>.
\<close>

definition np_hstack :: "'a ndarray \<Rightarrow> 'a ndarray \<Rightarrow> error + 'a ndarray" where
  "np_hstack a b =
     (let sa = (if shape a = [] then [1] else shape a);
          sb = (if shape b = [] then [1] else shape b)
      in case (sa, sb) of
           ([m], [n]) \<Rightarrow> Inr \<lparr>shape = [m + n], data = data a @ data b\<rparr>
         | (m # ka # ra, n # kb # rb) \<Rightarrow>
             if m = n \<and> ra = rb
             then Inr \<lparr>shape = m # (ka + kb) # ra,
                       data = concat (map (\<lambda>(x, y). x @ y)
                                (zip (blocks m (ka * prod_list ra) (data a))
                                     (blocks m (kb * prod_list rb) (data b))))\<rparr>
             else Inl NumpyValueError
         | _ \<Rightarrow> Inl NumpyValueError)"

text \<open>\<^verbatim>\<open>image[:, :, 0]\<close> on a 3-D array: the first entry along the last axis.\<close>

definition first_channel :: "'a ndarray \<Rightarrow> error + 'a ndarray" where
  "first_channel a =
     (case shape a of
        [m, n, c] \<Rightarrow>
          if c = 0 then Inl IndexError
          else Inr \<lparr>shape = [m, n], data = map (\<lambda>k. data a ! (k * c)) [0..<m * n]\<rparr>
      | _ \<Rightarrow> Inl IndexError)"

section \<open>The image normalizer\<close>

text \<open>
  \<^verbatim>\<open>_reshape(image, height, width)\<close>, lines 83 to 102. The branches are tried in the
  order of the source: a 3-D shape first, then a height below the target, then a width
  below the target, then the explicit \<^verbatim>\<open>raise\<close>. Unpacking \<^verbatim>\<open>image.shape[:2]\<close> into
  two names fails on a shape of fewer than two dimensions.
\<close>

definition reshape :: "real ndarray \<Rightarrow> nat \<Rightarrow> nat \<Rightarrow> error + real ndarray" where
  "reshape img height width =
     (if shape img \<noteq> [height, width] then
        (case shape img of
           [] \<Rightarrow> Inl (ValueError ''need more than 0 values to unpack'')
         | [d] \<Rightarrow> Inl (ValueError ''need more than 1 value to unpack'')
         | actual_height # actual_width # ds \<Rightarrow>
             if length (shape img) = 3 then
               (case first_channel img of
                  Inl e \<Rightarrow> Inl e
                | Inr padded \<Rightarrow> np_reshape padded [1, height * width])
             else if actual_height < height then
               (case np_vstack [img, np_zeros [height - actual_height, width]] of
                  Inl e \<Rightarrow> Inl e
                | Inr padded \<Rightarrow> np_reshape padded [1, height * width])
             else if actual_width < width then
               (case np_hstack img (np_zeros [height, width - actual_width]) of
                  Inl e \<Rightarrow> Inl e
                | Inr padded \<Rightarrow> np_reshape padded [1, height * width])
             else Inl (ValueError (''unhandled resizing case: '' @ str_tuple (shape img))))
      else np_reshape img [1, height * width])"

section \<open>The collaborators of the pipeline\<close>

text \<open>
  The fitted model of \<^verbatim>\<open>RandomizedPCA\<close>, as far as the script reads it: the matrix
  \<^verbatim>\<open>components_\<close> and the 1-D array \<^verbatim>\<open>explained_variance_ratio_\<close>.
\<close>

record pca =
  components :: "real ndarray"
  explained_variance_ratio :: "real list"

text \<open>
  What the script does not compute itself is a parameter of the model:
  \<open>imread\<close> is \<^verbatim>\<open>matplotlib.image.imread\<close> on the files present,
  \<open>fit k m\<close> is \<^verbatim>\<open>RandomizedPCA(n_components=k).fit(m)\<close>, and
  \<open>writable p\<close> tells whether the file \<open>p\<close> can be created or overwritten.
\<close>

record env =
  imread :: "string \<Rightarrow> error + real ndarray"
  fit :: "nat \<Rightarrow> real ndarray \<Rightarrow> error + pca"
  writable :: "string \<Rightarrow> bool"

text \<open>The configuration block at the head of the script, lines 12 to 15.\<close>

record config =
  NUM_EIGENFACES :: nat
  IMAGE_HEIGHT :: nat
  IMAGE_WIDTH :: nat


text \<open>What a file written by the script holds: a rendered matrix or the pickled model.\<close>

datatype artifact = Png "real ndarray" | Pickle pca

type_synonym files = "string \<rightharpoonup> artifact"

section \<open>Computing the eigenfaces\<close>

text \<open>
  \<^verbatim>\<open>[_reshape(image, height, width) for image in images]\<close> over the generator
  \<^verbatim>\<open>images\<close>, lines 110 to 112: each path is read and normalized in turn, and the first
  exception ends the whole comprehension.
\<close>

fun reshape_all ::
  "(string \<Rightarrow> error + real ndarray) \<Rightarrow> string list \<Rightarrow> nat \<Rightarrow> nat \<Rightarrow> error + real ndarray list"
where
  "reshape_all rd [] height width = Inr []"
| "reshape_all rd (path # paths) height width =
     (case rd path of
        Inl e \<Rightarrow> Inl e
      | Inr img \<Rightarrow>
          (case reshape img height width of
             Inl e \<Rightarrow> Inl e
           | Inr v \<Rightarrow>
               (case reshape_all rd paths height width of
                  Inl e \<Rightarrow> Inl e
                | Inr vs \<Rightarrow> Inr (v # vs))))"

text \<open>
  \<^verbatim>\<open>np.mean(m, axis=0)\<close>: the mean over the first axis. The script applies it to the
  stacked image matrix, which has at least one row (\<open>np_vstack\<close> rejects an empty
  list), so the division is by a positive count.
\<close>

definition np_mean_axis0 :: "real ndarray \<Rightarrow> real ndarray" where
  "np_mean_axis0 m =
     (let n = hd (shape m); d = prod_list (tl (shape m))
      in \<lparr>shape = tl (shape m),
          data = map (\<lambda>j. sum_list (map (\<lambda>i. data m ! (i * d + j)) [0..<n]) / real n) [0..<d]\<rparr>)"

text \<open>Iterating over an array yields its sub-arrays along the first axis.\<close>

definition iterate :: "'a ndarray \<Rightarrow> 'a ndarray list" where
  "iterate a =
     map (\<lambda>b. \<lparr>shape = tl (shape a), data = b\<rparr>)
       (blocks (hd (shape a)) (prod_list (tl (shape a))) (data a))"

text \<open>\<^verbatim>\<open>a - b\<close> for two arrays of the same shape (the only use in the script).\<close>

definition np_subtract :: "real ndarray \<Rightarrow> real ndarray \<Rightarrow> real ndarray" where
  "np_subtract a b = \<lparr>shape = shape a, data = map (\<lambda>(x, y). x - y) (zip (data a) (data b))\<rparr>"

text \<open>
  \<^verbatim>\<open>compute_eigenfaces(image_paths, n_eigenfaces, width, height)\<close>, lines 105 to 123,
  with the parameters in the order of the source. \<^verbatim>\<open>zip\<close> stops at the shorter of
  its two arguments.
\<close>

definition compute_eigenfaces ::
  "env \<Rightarrow> string list \<Rightarrow> nat \<Rightarrow> nat \<Rightarrow> nat \<Rightarrow>
     error + (real ndarray \<times> (real ndarray \<times> real) list \<times> pca)"
where
  "compute_eigenfaces ev image_paths n_eigenfaces width height =
     (case reshape_all (imread ev) image_paths height width of
        Inl e \<Rightarrow> Inl e
      | Inr vectors \<Rightarrow>
     (case np_vstack vectors of
        Inl e \<Rightarrow> Inl e
      | Inr image_matrix \<Rightarrow>
     (case fit ev n_eigenfaces image_matrix of
        Inl e \<Rightarrow> Inl e
      | Inr model \<Rightarrow>
     (case np_reshape (components model) [n_eigenfaces, height, width] of
        Inl e \<Rightarrow> Inl e
      | Inr eigenvectors \<Rightarrow>
     (case np_reshape (np_mean_axis0 image_matrix) [height, width] of
        Inl e \<Rightarrow> Inl e
      | Inr mean_face \<Rightarrow>
          Inr (mean_face,
               zip (map (\<lambda>eigenvector. np_subtract eigenvector mean_face) (iterate eigenvectors))
                   (explained_variance_ratio model),
               model))))))"

section \<open>Writing the artifacts\<close>

text \<open>\<^verbatim>\<open>os.path.join(a, b)\<close> on a POSIX system.\<close>

definition os_path_join :: "string \<Rightarrow> string \<Rightarrow> string" where
  "os_path_join a b =
     (if b \<noteq> [] \<and> hd b = CHR ''/'' then b
      else if a = [] \<or> last a = CHR ''/'' then a @ b
      else a @ ''/'' @ b)"

text \<open>
  \<^verbatim>\<open>'%.4f' % x\<close>: the decimal expansion of \<open>x\<close> with four digits after the point,
  rounded to the nearest such number, a tie going to the even last digit. The model
  formats a real number; a float that is not a number has no counterpart here.
\<close>

definition round_half_even :: "real \<Rightarrow> nat" where
  "round_half_even x =
     (let f = nat \<lfloor>x\<rfloor>; d = x - real f
      in if d < 1 / 2 then f else if 1 / 2 < d then f + 1 else if even f then f else f + 1)"

definition ten_thousandths :: "real \<Rightarrow> nat" where
  "ten_thousandths x = round_half_even (\<bar>x\<bar> * 10000)"

definition format_4f :: "real \<Rightarrow> string" where
  "format_4f x =
     (let n = ten_thousandths x; frac = str_nat (n mod 10000)
      in (if x < 0 then ''-'' else []) @ str_nat (n div 10000) @ ''.''
           @ replicate (4 - length frac) CHR ''0'' @ frac)"

text \<open>\<^verbatim>\<open>'%.4f%%.png' % (eigenvalue * 100)\<close>, line 157.\<close>

definition eigenface_name :: "real \<Rightarrow> string" where
  "eigenface_name eigenvalue = format_4f (eigenvalue * 100) @ ''%.png''"

text \<open>
  \<^verbatim>\<open>_imsave\<close> and \<^verbatim>\<open>_serialize\<close>, lines 126 to 142: the file is created or silently
  replaced; a location that cannot be written raises. The result is the exception, if
  any, and the files after the call.
\<close>

definition imsave :: "env \<Rightarrow> string \<Rightarrow> real ndarray \<Rightarrow> files \<Rightarrow> error option \<times> files" where
  "imsave ev path matrix fs =
     (if writable ev path then (None, fs(path \<mapsto> Png matrix)) else (Some (IOError path), fs))"

definition serialize :: "env \<Rightarrow> pca \<Rightarrow> string \<Rightarrow> files \<Rightarrow> error option \<times> files" where
  "serialize ev obj path fs =
     (if writable ev path then (None, fs(path \<mapsto> Pickle obj)) else (Some (IOError path), fs))"

text \<open>The loop of lines 156 to 159 over the ranked eigenfaces.\<close>

fun save_eigenfaces ::
  "env \<Rightarrow> string \<Rightarrow> (real ndarray \<times> real) list \<Rightarrow> files \<Rightarrow> error option \<times> files"
where
  "save_eigenfaces ev data_out [] fs = (None, fs)"
| "save_eigenfaces ev data_out ((eigenface, eigenvalue) # rest) fs =
     (case imsave ev (os_path_join data_out (eigenface_name eigenvalue)) eigenface fs of
        (Some e, fs') \<Rightarrow> (Some e, fs')
      | (None, fs') \<Rightarrow> save_eigenfaces ev data_out rest fs')"

text \<open>
  \<^verbatim>\<open>plot_eigenfaces(image_paths, data_out)\<close>, lines 145 to 163. It calls
  \<^verbatim>\<open>compute_eigenfaces\<close> with the configured defaults. Messages to the standard
  error stream are not files and are left out.
\<close>

definition plot_eigenfaces ::
  "env \<Rightarrow> config \<Rightarrow> string list \<Rightarrow> string \<Rightarrow> files \<Rightarrow> error option \<times> files"
where
  "plot_eigenfaces ev cfg image_paths data_out fs =
     (case compute_eigenfaces ev image_paths (NUM_EIGENFACES cfg) (IMAGE_WIDTH cfg) (IMAGE_HEIGHT cfg) of
        Inl e \<Rightarrow> (Some e, fs)
      | Inr (mean_face, eigenfaces, model) \<Rightarrow>
          (case imsave ev (os_path_join data_out ''mean-face.png'') mean_face fs of
             (Some e, fs1) \<Rightarrow> (Some e, fs1)
           | (None, fs1) \<Rightarrow>
               (case save_eigenfaces ev data_out eigenfaces fs1 of
                  (Some e, fs2) \<Rightarrow> (Some e, fs2)
                | (None, fs2) \<Rightarrow> serialize ev model (os_path_join data_out ''pca.pickle.gz'') fs2)))"

section \<open>Notions used to state the properties\<close>

text \<open>The rows of a 2-D array, and the entry \<open>a[i, j]\<close> of a 2-D array and
  the entry \<open>a[i, j, k]\<close> of a 3-D array.\<close>

definition rows :: "'a ndarray \<Rightarrow> 'a list list" where
  "rows a = blocks (shape a ! 0) (shape a ! 1) (data a)"

definition at2 :: "'a ndarray \<Rightarrow> nat \<Rightarrow> nat \<Rightarrow> 'a" where
  "at2 a i j = data a ! (i * (shape a ! 1) + j)"

definition at3 :: "'a ndarray \<Rightarrow> nat \<Rightarrow> nat \<Rightarrow> nat \<Rightarrow> 'a" where
  "at3 a i j k = data a ! ((i * (shape a ! 1) + j) * (shape a ! 2) + k)"

text \<open>\<open>mentions needle s\<close>: the text \<open>needle\<close> occurs in \<open>s\<close>.\<close>

fun starts_with :: "string \<Rightarrow> string \<Rightarrow> bool" where
  "starts_with [] s = True"
| "starts_with (c # cs) [] = False"
| "starts_with (c # cs) (d # ds) = (c = d \<and> starts_with cs ds)"

fun mentions :: "string \<Rightarrow> string \<Rightarrow> bool" where
  "mentions needle [] = (needle = [])"
| "mentions needle (d # ds) = (starts_with needle (d # ds) \<or> mentions needle ds)"

text \<open>Example images.\<close>

definition img57 :: "real ndarray" where
  "img57 = \<lparr>shape = [5, 7], data = replicate 35 0\<rparr>"





definition env_two_faces :: env where
  "env_two_faces =
     \<lparr>imread = (\<lambda>p. if p = ''a.png'' then Inr \<lparr>shape = [1, 2], data = [1, 3]\<rparr>
                    else if p = ''b.png'' then Inr \<lparr>shape = [1, 2], data = [3, 5]\<rparr>
                    else Inl (IOError p)),
      fit = (\<lambda>k m. Inr \<lparr>components = \<lparr>shape = [2, 2], data = [1, 0, 0, 1]\<rparr>,
                         explained_variance_ratio = [1, 0]\<rparr>),
      writable = (\<lambda>p. True)\<rparr>"

text \<open>
  A run on three images of 100 by 100 pixels with two components. The images are the
  first three unit images, which lie at equal distances from each other: the two
  principal directions span the plane through them and carry one half of the variance
  each.
\<close>

definition config_two :: config where
  "config_two = \<lparr>NUM_EIGENFACES = 2, IMAGE_HEIGHT = 100, IMAGE_WIDTH = 100\<rparr>"

definition model_tied :: pca where
  "model_tied =
     \<lparr>components = \<lparr>shape = [2, 10000],
                     data = [1 / sqrt 2, - 1 / sqrt 2] @ replicate 9998 0
                            @ [1 / sqrt 6, 1 / sqrt 6, - 2 / sqrt 6] @ replicate 9997 0\<rparr>,
      explained_variance_ratio = [1 / 2, 1 / 2]\<rparr>"

definition env_tied :: env where
  "env_tied =
     \<lparr>imread = (\<lambda>p. if p = ''a.png'' then Inr \<lparr>shape = [100, 100], data = 1 # replicate 9999 0\<rparr>
                    else if p = ''b.png'' then Inr \<lparr>shape = [100, 100], data = 0 # 1 # replicate 9998 0\<rparr>
                    else if p = ''c.png'' then Inr \<lparr>shape = [100, 100], data = 0 # 0 # 1 # replicate 9997 0\<rparr>
                    else Inl (IOError p)),
      fit = (\<lambda>k m. if k = 2 \<and> shape m = [3, 10000] then Inr model_tied else Inl FitError),
      writable = (\<lambda>p. True)\<rparr>"

section \<open>Facts about blocks and ranges\<close>

lemma blocks_Suc: "blocks (Suc n) k xs = take k xs # blocks n k (drop k xs)"
proof -
  have "[0..<Suc n] = 0 # map Suc [0..<n]"
    by (simp only: map_Suc_upt upt_conv_Cons[of 0 "Suc n"] zero_less_Suc if_True)
  then have "blocks (Suc n) k xs = take k (drop (0 * k) xs) # map (\<lambda>i. take k (drop (Suc i * k) xs)) [0..<n]"
    unfolding blocks_def by (simp add: o_def del: upt_Suc)
  moreover have "\<And>i. drop (Suc i * k) xs = drop (i * k) (drop k xs)"
    by (simp add: add.commute)
  ultimately show ?thesis by (simp add: blocks_def)
qed

lemma concat_blocks: "length xs = n * k \<Longrightarrow> concat (blocks n k xs) = xs"
proof (induction n arbitrary: xs)
  case 0 then show ?case by (simp add: blocks_def)
next
  case (Suc n)
  have "length (drop k xs) = n * k" using Suc.prems by simp
  then have "concat (blocks n k (drop k xs)) = drop k xs" by (rule Suc.IH)
  then show ?case by (simp add: blocks_Suc)
qed

lemma map_upt_shift: "map f [a..<a + n] = map (\<lambda>j. f (a + j)) [0..<n]"
proof -
  have "[a..<a + n] = map (\<lambda>j. a + j) [0..<n]"
    using map_add_upt[of a n] by (simp add: add.commute)
  then show ?thesis by (simp add: o_def)
qed

lemma map_upt_mult:
  "map f [0..<m * n] = concat (map (\<lambda>i. map (\<lambda>j. f (i * n + j)) [0..<n]) [0..<m])"
proof (induction m)
  case 0 show ?case by simp
next
  case (Suc m)
  have "[0..<Suc m * n] = [0..<m * n] @ [m * n..<m * n + n]"
    using upt_add_eq_append[of 0 "m * n" n] by (simp add: add.commute)
  then have "map f [0..<Suc m * n] = map f [0..<m * n] @ map (\<lambda>j. f (m * n + j)) [0..<n]"
    by (simp only: map_append map_upt_shift)
  then show ?case using Suc by simp
qed

lemma concat_replicate_zeros: "concat (replicate n (replicate k x)) = replicate (n * k) x"
  by (induction n) (simp_all add: replicate_add)

section \<open>Properties of the image normalizer\<close>

text \<open>
  C1 (as the code has it). A 2-D image whose shape differs from the target and is not
  one of the two padding cases (height below the target with the target width, or the
  target height with a width below the target) is refused, so nothing is cropped and no
  vector is returned. When neither dimension is below the target the script raises its own
  ValueError, whose message gives the actual shape only; in the remaining cases the
  stacking call of numpy raises.
\<close>

theorem reshape_irreconcilable_fails:
  assumes "shape img = [ah, aw]"
    and "[ah, aw] \<noteq> [height, width]"
    and "\<not> (ah < height \<and> aw = width)"
    and "\<not> (ah = height \<and> aw < width)"
  shows "reshape img height width =
           Inl (if height \<le> ah \<and> width \<le> aw
                then ValueError (''unhandled resizing case: '' @ str_tuple [ah, aw])
                else NumpyValueError)"
proof (cases "ah < height")
  case True
  with assms(3) have "aw \<noteq> width" by simp
  with True assms(1) show ?thesis
    by (simp add: reshape_def np_vstack_def atleast_2d_def np_zeros_def)
next
  case False
  show ?thesis
  proof (cases "aw < width")
    case True
    with assms(4) False have "ah \<noteq> height" by simp
    with True False assms(1) show ?thesis
      by (simp add: reshape_def np_hstack_def np_zeros_def)
  next
    case nw: False
    with False assms(1,2) show ?thesis
      by (simp add: reshape_def)
  qed
qed

text \<open>An oversized image of 3 rows and 2 columns against the target 2 by 2.\<close>

theorem reshape_irreconcilable_fails_witness:
  "reshape \<lparr>shape = [3, 2], data = [1, 2, 3, 4, 5, 6]\<rparr> 2 2 =
     Inl (ValueError ''unhandled resizing case: (3, 2)'')"
  using reshape_irreconcilable_fails [of "\<lparr>shape = [3, 2], data = [1, 2, 3, 4, 5, 6]\<rparr>" 3 2 2 2]
  by (simp add: str_nat.simps digit_char_def)

text \<open>
  The message of the refusal does not identify the expected shape: the same 5 by 7 image
  is refused with the same message against the targets 3 by 4 and 2 by 6, and the text of
  the expected shape \<open>(3, 4)\<close> does not occur in it. The normalizer is not given the path.
\<close>

theorem reshape_error_omits_expected_shape:
  "reshape img57 3 4 = Inl (ValueError ''unhandled resizing case: (5, 7)'')
   \<and> reshape img57 2 6 = Inl (ValueError ''unhandled resizing case: (5, 7)'')
   \<and> \<not> mentions (str_tuple [3, 4]) ''unhandled resizing case: (5, 7)''"
  by (simp add: reshape_def img57_def str_nat.simps digit_char_def)

text \<open>
  C3 (as the code has it). For a well-formed 2-D image of the target width whose height
  is \<open>delta\<close> rows below the target height, the normalizer returns the row-major
  flattening of the rows of the image followed by \<open>delta\<close> rows of zeros.
\<close>

theorem reshape_pads_rows:
  assumes "wf img" and "shape img = [ah, width]"
  shows "reshape img (ah + delta) width =
           Inr \<lparr>shape = [1, (ah + delta) * width],
                data = concat (rows img @ replicate delta (replicate width 0))\<rparr>"
proof -
  have len: "length (data img) = ah * width"
    using assms by (simp add: wf_def)
  have flat: "concat (rows img) = data img"
    using assms(2) len by (simp add: rows_def concat_blocks)
  show ?thesis
  proof (cases "delta = 0")
    case True
    with assms(2) flat show ?thesis
      by (simp add: reshape_def np_reshape_def)
  next
    case False
    then have "ah < ah + delta" by simp
    with assms(2) False flat show ?thesis
      by (simp add: reshape_def np_vstack_def atleast_2d_def np_zeros_def np_reshape_def
          concat_replicate_zeros add_mult_distrib)
  qed
qed

text \<open>A 2 by 2 image padded to 4 by 2.\<close>

theorem reshape_pads_rows_witness:
  "reshape \<lparr>shape = [2, 2], data = [5, 6, 7, 8]\<rparr> 4 2 =
     Inr \<lparr>shape = [1, 8], data = [5, 6, 7, 8, 0, 0, 0, 0]\<rparr>"
proof -
  let ?x = "\<lparr>shape = [2, 2], data = [5, 6, 7, 8 :: real]\<rparr>"
  have h: "wf ?x" "shape ?x = [2, 2]"
    by (simp_all add: wf_def)
  have e: "concat (rows ?x @ replicate 2 (replicate 2 0)) = [5, 6, 7, 8, 0, 0, 0, 0]"
    by (simp add: rows_def blocks_def numeral_2_eq_2)
  from reshape_pads_rows [OF h, of 2] e show ?thesis
    by simp
qed

text \<open>
  Without the target width the padding does not happen: a 1 by 1 image is one row short
  of the target 2 by 2, and stacking it on a row of two zeros fails inside numpy.
\<close>

theorem reshape_short_and_narrow_fails:
  "reshape \<lparr>shape = [1, 1], data = [7]\<rparr> 2 2 = Inl NumpyValueError"
  by (simp add: reshape_def np_vstack_def atleast_2d_def np_zeros_def)

text \<open>
  C8. For a well-formed image of shape (height, width, 3) the normalizer returns the
  row-major flattening of channel 0: entry \<open>i * width + j\<close> of the vector is
  \<open>image[i, j, 0]\<close>, and the other channels do not occur.
\<close>

theorem reshape_three_channels:
  assumes "wf img" and "shape img = [height, width, 3]"
  shows "reshape img height width =
           Inr \<lparr>shape = [1, height * width],
                data = concat (map (\<lambda>i. map (\<lambda>j. at3 img i j 0) [0..<width]) [0..<height])\<rparr>"
proof -
  have "map (\<lambda>k. data img ! (k * 3)) [0..<height * width] =
        concat (map (\<lambda>i. map (\<lambda>j. data img ! ((i * width + j) * 3)) [0..<width]) [0..<height])"
    by (rule map_upt_mult)
  with assms(2) show ?thesis
    by (simp add: reshape_def first_channel_def np_reshape_def at3_def)
qed

text \<open>A 2 by 2 image with three channels.\<close>

theorem reshape_three_channels_witness:
  "reshape \<lparr>shape = [2, 2, 3], data = [1, 2, 3, 4, 5, 6, 7, 8, 9, 10, 11, 12]\<rparr> 2 2 =
     Inr \<lparr>shape = [1, 4], data = [1, 4, 7, 10]\<rparr>"
proof -
  let ?x = "\<lparr>shape = [2, 2, 3], data = [1, 2, 3, 4, 5, 6, 7, 8, 9, 10, 11, 12 :: real]\<rparr>"
  have h: "wf ?x" "shape ?x = [2, 2, 3]"
    by (simp_all add: wf_def)
  have "[0..<2] = [0, 1]"
    by (simp add: numeral_2_eq_2)
  then have e: "concat (map (\<lambda>i. map (\<lambda>j. at3 ?x i j 0) [0..<2]) [0..<2]) = [1, 4, 7, 10]"
    by (simp add: at3_def)
  from reshape_three_channels [OF h] e show ?thesis
    by simp
qed


section \<open>Properties of the whole run\<close>







section \<open>Properties of the rendered basis\<close>

lemma index_in_grid: "r < h \<Longrightarrow> c < w \<Longrightarrow> r * w + c < h * (w::nat)"
proof -
  assume "r < h" "c < w"
  then have "r * w + c < r * w + w" by simp
  also have "\<dots> = Suc r * w" by simp
  also have "\<dots> \<le> h * w" using \<open>r < h\<close> by (intro mult_le_mono1) simp
  finally show ?thesis .
qed

lemma nth_blocks: "i < n \<Longrightarrow> blocks n k xs ! i = take k (drop (i * k) xs)"
  by (simp add: blocks_def)

lemma length_blocks: "length (blocks n k xs) = n"
  by (simp add: blocks_def)

lemma iterate_length: "length (iterate a) = hd (shape a)"
  by (simp add: iterate_def length_blocks)

lemma iterate_nth:
  "i < hd (shape a) \<Longrightarrow>
   iterate a ! i = \<lparr>shape = tl (shape a), data = take (prod_list (tl (shape a))) (drop (i * prod_list (tl (shape a))) (data a))\<rparr>"
  by (simp add: iterate_def length_blocks nth_blocks)

text \<open>
  C7. Let the fitted model hold \<open>k\<close> direction vectors of length \<open>height * width\<close>
  (the rows of its components matrix) and \<open>k\<close> explained-variance ratios. Then
  \<^verbatim>\<open>compute_eigenfaces\<close> returns \<open>k\<close> pairs in the order of the model: the \<open>i\<close>-th pair
  holds the \<open>i\<close>-th ratio and an image of shape (height, width) whose entry at
  \<open>(r, c)\<close> is entry \<open>r * width + c\<close> of the \<open>i\<close>-th direction vector minus the
  entry at \<open>(r, c)\<close> of the returned mean face.
\<close>

theorem eigenfaces_are_rendered_in_order:
  assumes run: "compute_eigenfaces ev image_paths k width height = Inr (mean_face, eigenfaces, model)"
    and wfc: "wf (components model)"
    and shc: "shape (components model) = [k, height * width]"
    and lenr: "length (explained_variance_ratio model) = k"
  shows "length eigenfaces = k
         \<and> map snd eigenfaces = explained_variance_ratio model
         \<and> (\<forall>i<k. shape (fst (eigenfaces ! i)) = [height, width]
               \<and> (\<forall>r<height. \<forall>c<width.
                     at2 (fst (eigenfaces ! i)) r c
                       = at2 (components model) i (r * width + c) - at2 mean_face r c))"
proof -
  define ev_arr where "ev_arr = \<lparr>shape = [k, height, width], data = data (components model)\<rparr>"
  from run obtain m where
    mean: "np_reshape (np_mean_axis0 m) [height, width] = Inr mean_face"
    and efs: "eigenfaces = zip (map (\<lambda>v. np_subtract v mean_face) (iterate ev_arr))
                               (explained_variance_ratio model)"
    by (auto simp: compute_eigenfaces_def np_reshape_def ev_arr_def split: sum.splits if_splits)
  have shm: "shape mean_face = [height, width]"
    and lenm: "length (data mean_face) = height * width"
    using mean by (auto simp: np_reshape_def np_mean_axis0_def Let_def split: if_splits)
  have lenc: "length (data (components model)) = k * (height * width)"
    using wfc shc by (simp add: wf_def)
  have leni: "length (iterate ev_arr) = k"
    by (simp add: iterate_length ev_arr_def)
  have len: "length eigenfaces = k"
    by (simp add: efs leni lenr)
  have snd: "map snd eigenfaces = explained_variance_ratio model"
    by (simp add: efs leni lenr)
  have each: "shape (fst (eigenfaces ! i)) = [height, width]
              \<and> (\<forall>r<height. \<forall>c<width.
                    at2 (fst (eigenfaces ! i)) r c
                      = at2 (components model) i (r * width + c) - at2 mean_face r c)"
    if i: "i < k" for i
  proof -
    let ?blk = "take (height * width) (drop (i * (height * width)) (data (components model)))"
    have it: "iterate ev_arr ! i = \<lparr>shape = [height, width], data = ?blk\<rparr>"
      using i by (simp add: iterate_nth ev_arr_def)
    have "(Suc i) * (height * width) \<le> k * (height * width)"
      using i by (intro mult_le_mono1) simp
    then have lenb: "length ?blk = height * width"
      using lenc by simp
    have fst: "fst (eigenfaces ! i) = np_subtract \<lparr>shape = [height, width], data = ?blk\<rparr> mean_face"
      using i by (simp add: efs leni lenr it)
    have px: "at2 (fst (eigenfaces ! i)) r c
                = at2 (components model) i (r * width + c) - at2 mean_face r c"
      if "r < height" "c < width" for r c
    proof -
      from that have idx: "r * width + c < height * width"
        by (rule index_in_grid)
      have "?blk ! (r * width + c) = data (components model) ! (i * (height * width) + (r * width + c))"
      proof -
        have "i * (height * width) \<le> length (data (components model))"
          using i lenc by simp
        then show ?thesis using idx by (simp add: nth_drop)
      qed
      with idx lenb lenm show ?thesis
        by (simp add: fst np_subtract_def at2_def shc shm)
    qed
    show ?thesis using px by (simp add: fst np_subtract_def)
  qed
  from len snd each show ?thesis by blast
qed


text \<open>Two images of one row and two columns, two components.\<close>

lemma upt_0_2: "[0..<2] = [0, 1]"
  by (simp add: numeral_2_eq_2)

lemma two_faces_run:
  "compute_eigenfaces env_two_faces [''a.png'', ''b.png''] 2 2 1 =
     Inr (\<lparr>shape = [1, 2], data = [2, 4]\<rparr>,
          [(\<lparr>shape = [1, 2], data = [- 1, - 4]\<rparr>, 1), (\<lparr>shape = [1, 2], data = [- 2, - 3]\<rparr>, 0)],
          \<lparr>components = \<lparr>shape = [2, 2], data = [1, 0, 0, 1]\<rparr>,
           explained_variance_ratio = [1, 0]\<rparr>)"
  by (simp add: compute_eigenfaces_def env_two_faces_def reshape_def np_reshape_def
      np_vstack_def atleast_2d_def np_mean_axis0_def iterate_def blocks_def np_subtract_def
      upt_0_2)

theorem eigenfaces_are_rendered_in_order_witness:
  "compute_eigenfaces env_two_faces [''a.png'', ''b.png''] 2 2 1 =
     Inr (\<lparr>shape = [1, 2], data = [2, 4]\<rparr>,
          [(\<lparr>shape = [1, 2], data = [- 1, - 4]\<rparr>, 1), (\<lparr>shape = [1, 2], data = [- 2, - 3]\<rparr>, 0)],
          \<lparr>components = \<lparr>shape = [2, 2], data = [1, 0, 0, 1]\<rparr>,
           explained_variance_ratio = [1, 0]\<rparr>)
   \<and> at2 \<lparr>shape = [1, 2], data = [- 2, - 3 :: real]\<rparr> 0 1
       = at2 \<lparr>shape = [2, 2], data = [1, 0, 0, 1 :: real]\<rparr> 1 (0 * 2 + 1)
         - at2 \<lparr>shape = [1, 2], data = [2, 4 :: real]\<rparr> 0 1"
proof -
  let ?model = "\<lparr>components = \<lparr>shape = [2, 2], data = [1, 0, 0, 1 :: real]\<rparr>,
                 explained_variance_ratio = [1, 0 :: real]\<rparr>"
  have h: "wf (components ?model)" "shape (components ?model) = [2, 1 * 2]"
    "length (explained_variance_ratio ?model) = 2"
    by (simp_all add: wf_def)
  from eigenfaces_are_rendered_in_order [OF two_faces_run h]
  have "\<forall>i<2. \<forall>r<1. \<forall>c<2.
          at2 (fst ([(\<lparr>shape = [1, 2], data = [- 1, - 4 :: real]\<rparr>, 1 :: real),
                     (\<lparr>shape = [1, 2], data = [- 2, - 3]\<rparr>, 0)] ! i)) r c
            = at2 (components ?model) i (r * 2 + c) - at2 \<lparr>shape = [1, 2], data = [2, 4 :: real]\<rparr> r c"
    by blast
  then have "at2 (fst ([(\<lparr>shape = [1, 2], data = [- 1, - 4 :: real]\<rparr>, 1 :: real),
                     (\<lparr>shape = [1, 2], data = [- 2, - 3]\<rparr>, 0)] ! 1)) 0 1
            = at2 (components ?model) 1 (0 * 2 + 1) - at2 \<lparr>shape = [1, 2], data = [2, 4 :: real]\<rparr> 0 1"
    by (metis one_less_numeral_iff semiring_norm(76) zero_less_one)
  with two_faces_run show ?thesis by simp
qed

section \<open>The requested number of components\<close>








section \<open>The artifacts of a run\<close>

subsection \<open>The name of an eigenface\<close>

lemma replicate_3: "replicate 3 c = [c, c, c]"
  by (simp add: numeral_3_eq_3)

lemma name_half: "eigenface_name (1 / 2) = ''50.0000%.png''"
  by (simp add: eigenface_name_def format_4f_def ten_thousandths_def round_half_even_def
      str_nat.simps digit_char_def Let_def replicate_3)

subsection \<open>Three images, two components\<close>

lemma reshape_exact:
  "shape img = [h, w] \<Longrightarrow> reshape img h w = Inr \<lparr>shape = [1, h * w], data = data img\<rparr>"
  by (simp add: reshape_def np_reshape_def)

lemma compute_three_images:
  assumes "imread ev p1 = Inr i1" and "imread ev p2 = Inr i2" and "imread ev p3 = Inr i3"
    and "shape i1 = [h, w]" and "shape i2 = [h, w]" and "shape i3 = [h, w]"
    and "fit ev 2 \<lparr>shape = [3, h * w], data = data i1 @ data i2 @ data i3\<rparr> = Inr model"
    and "shape (components model) = [2, h * w]"
    and "explained_variance_ratio model = [r1, r2]"
  shows "\<exists>mean_face e1 e2.
           compute_eigenfaces ev [p1, p2, p3] 2 w h = Inr (mean_face, [(e1, r1), (e2, r2)], model)"
proof -
  have all: "reshape_all (imread ev) [p1, p2, p3] h w =
          Inr [\<lparr>shape = [1, h * w], data = data i1\<rparr>, \<lparr>shape = [1, h * w], data = data i2\<rparr>,
               \<lparr>shape = [1, h * w], data = data i3\<rparr>]"
    using assms(1-6) by (simp add: reshape_exact)
  have stack: "np_vstack [\<lparr>shape = [1, h * w], data = data i1\<rparr>, \<lparr>shape = [1, h * w], data = data i2\<rparr>,
               \<lparr>shape = [1, h * w], data = data i3\<rparr>]
             = Inr \<lparr>shape = [3, h * w], data = data i1 @ data i2 @ data i3\<rparr>"
    by (simp add: np_vstack_def atleast_2d_def)
  have comp: "np_reshape (components model) [2, h, w]
             = Inr \<lparr>shape = [2, h, w], data = data (components model)\<rparr>"
    using assms(8) by (simp add: np_reshape_def)
  have mean: "\<exists>mf. np_reshape (np_mean_axis0 \<lparr>shape = [3, h * w], data = data i1 @ data i2 @ data i3\<rparr>) [h, w]
             = Inr mf"
    by (simp add: np_reshape_def np_mean_axis0_def Let_def)
  have it: "\<exists>a b. iterate \<lparr>shape = [2, h, w], data = data (components model)\<rparr> = [a, b]"
    by (simp add: iterate_def blocks_def upt_0_2)
  from mean obtain mf where mf: "np_reshape (np_mean_axis0 \<lparr>shape = [3, h * w], data = data i1 @ data i2 @ data i3\<rparr>) [h, w]
             = Inr mf" ..
  from it obtain a b where ab: "iterate \<lparr>shape = [2, h, w], data = data (components model)\<rparr> = [a, b]"
    by blast
  have "compute_eigenfaces ev [p1, p2, p3] 2 w h =
          Inr (mf, [(np_subtract a mf, r1), (np_subtract b mf, r2)], model)"
    using all stack comp mf ab assms(7,9)
    by (simp add: compute_eigenfaces_def)
  then show ?thesis by blast
qed

lemma plot_three_images:
  assumes "NUM_EIGENFACES cfg = 2" and "IMAGE_HEIGHT cfg = h" and "IMAGE_WIDTH cfg = w"
    and "imread ev p1 = Inr i1" and "imread ev p2 = Inr i2" and "imread ev p3 = Inr i3"
    and "shape i1 = [h, w]" and "shape i2 = [h, w]" and "shape i3 = [h, w]"
    and "fit ev 2 \<lparr>shape = [3, h * w], data = data i1 @ data i2 @ data i3\<rparr> = Inr model"
    and "shape (components model) = [2, h * w]"
    and "explained_variance_ratio model = [r1, r2]"
    and "writable ev (os_path_join data_out ''mean-face.png'')"
    and "writable ev (os_path_join data_out (eigenface_name r1))"
    and "writable ev (os_path_join data_out (eigenface_name r2))"
    and "writable ev (os_path_join data_out ''pca.pickle.gz'')"
  shows "\<exists>mean_face e1 e2.
           plot_eigenfaces ev cfg [p1, p2, p3] data_out fs =
             (None, fs(os_path_join data_out ''mean-face.png'' \<mapsto> Png mean_face,
                       os_path_join data_out (eigenface_name r1) \<mapsto> Png e1,
                       os_path_join data_out (eigenface_name r2) \<mapsto> Png e2,
                       os_path_join data_out ''pca.pickle.gz'' \<mapsto> Pickle model))"
proof -
  from compute_three_images [OF assms(4-12)] obtain mean_face e1 e2 where
    "compute_eigenfaces ev [p1, p2, p3] 2 w h = Inr (mean_face, [(e1, r1), (e2, r2)], model)"
    by blast
  then have "plot_eigenfaces ev cfg [p1, p2, p3] data_out fs =
             (None, fs(os_path_join data_out ''mean-face.png'' \<mapsto> Png mean_face,
                       os_path_join data_out (eigenface_name r1) \<mapsto> Png e1,
                       os_path_join data_out (eigenface_name r2) \<mapsto> Png e2,
                       os_path_join data_out ''pca.pickle.gz'' \<mapsto> Pickle model))"
    using assms(1-3,13-16) by (simp add: plot_eigenfaces_def imsave_def serialize_def)
  then show ?thesis by blast
qed

lemma out_paths:
  "os_path_join ''out'' ''mean-face.png'' = ''out/mean-face.png''"
  "os_path_join ''out'' ''pca.pickle.gz'' = ''out/pca.pickle.gz''"
  "os_path_join ''out'' ''50.0000%.png'' = ''out/50.0000%.png''"
  by (simp_all add: os_path_join_def)

text \<open>
  C6. Three images of 100 by 100 pixels and two components should leave one mean image,
  two eigenface images and one model. On the three unit images the two variance shares
  are both one half, so line 157 gives both eigenfaces the name \<^verbatim>\<open>50.0000%.png\<close>:
  the second write replaces the first, and the run ends without an exception with three
  files, of which only one is an eigenface.
\<close>

theorem tied_shares_leave_one_eigenface:
  "\<exists>fs'. plot_eigenfaces env_tied config_two [''a.png'', ''b.png'', ''c.png''] ''out'' Map.empty
            = (None, fs')
        \<and> dom fs' = {''out/mean-face.png'', ''out/50.0000%.png'', ''out/pca.pickle.gz''}"
proof -
  have cfg: "NUM_EIGENFACES config_two = 2" "IMAGE_HEIGHT config_two = 100"
    "IMAGE_WIDTH config_two = 100"
    by (simp_all add: config_two_def)
  have rd: "imread env_tied ''a.png'' = Inr \<lparr>shape = [100, 100], data = 1 # replicate 9999 0\<rparr>"
    "imread env_tied ''b.png'' = Inr \<lparr>shape = [100, 100], data = 0 # 1 # replicate 9998 0\<rparr>"
    "imread env_tied ''c.png'' = Inr \<lparr>shape = [100, 100], data = 0 # 0 # 1 # replicate 9997 0\<rparr>"
    by (simp_all add: env_tied_def)
  have sh: "shape \<lparr>shape = [100, 100], data = 1 # replicate 9999 (0::real)\<rparr> = [100, 100]"
    "shape \<lparr>shape = [100, 100], data = 0 # 1 # replicate 9998 (0::real)\<rparr> = [100, 100]"
    "shape \<lparr>shape = [100, 100], data = 0 # 0 # 1 # replicate 9997 (0::real)\<rparr> = [100, 100]"
    by simp_all
  have ft: "fit env_tied 2
              \<lparr>shape = [3, 100 * 100],
                 data = data \<lparr>shape = [100, 100], data = 1 # replicate 9999 (0::real)\<rparr>
                      @ data \<lparr>shape = [100, 100], data = 0 # 1 # replicate 9998 (0::real)\<rparr>
                      @ data \<lparr>shape = [100, 100], data = 0 # 0 # 1 # replicate 9997 (0::real)\<rparr>\<rparr>
            = Inr model_tied"
    by (simp add: env_tied_def)
  have md: "shape (components model_tied) = [2, 100 * 100]"
    "explained_variance_ratio model_tied = [1 / 2, 1 / 2]"
    by (simp_all add: model_tied_def)
  have wr: "writable env_tied (os_path_join ''out'' ''mean-face.png'')"
    "writable env_tied (os_path_join ''out'' (eigenface_name (1 / 2)))"
    "writable env_tied (os_path_join ''out'' (eigenface_name (1 / 2)))"
    "writable env_tied (os_path_join ''out'' ''pca.pickle.gz'')"
    by (simp_all add: env_tied_def)
  from plot_three_images [OF cfg rd sh ft md wr, of Map.empty]
  obtain mean_face e1 e2 where
    "plot_eigenfaces env_tied config_two [''a.png'', ''b.png'', ''c.png''] ''out'' Map.empty =
       (None, Map.empty(''out/mean-face.png'' \<mapsto> Png mean_face,
                        ''out/50.0000%.png'' \<mapsto> Png e1,
                        ''out/50.0000%.png'' \<mapsto> Png e2,
                        ''out/pca.pickle.gz'' \<mapsto> Pickle model_tied))"
    by (simp only: name_half out_paths) blast
  then show ?thesis by auto
qed

end
